theory Spec2Isabelle
  imports Main
begin

section \<open>Python values, exceptions and string rendering\<close>

text \<open>
  The handler of \<^verbatim>\<open>secsgem/secsHandler.py\<close> is a Python 2 class. Values that cross
  its interface (callback results, constructor arguments, decoded contents) are modelled
  by \<open>pyval\<close>; \<open>PyBool False\<close> is the singleton \<^verbatim>\<open>False\<close>, so the test
  \<^verbatim>\<open>x is False\<close> is equality with \<open>PyBool False\<close> (in particular \<^verbatim>\<open>0 is False\<close>
  and \<^verbatim>\<open>None is False\<close> do not hold).
\<close>

datatype pyval =
    PyNone
  | PyBool bool
  | PyInt int
  | PyStr string
  | PyList "pyval list"
  | PyDict "(string \<times> pyval) list"

text \<open>
  Exceptions are values. Every constructor is a subclass of \<^verbatim>\<open>Exception\<close>, which is
  what \<^verbatim>\<open>except Exception, e\<close> catches; \<open>Exception\<close> stands for any error raised by
  code outside the handler (a callback, the codec, the transport).
\<close>

datatype exn =
    TypeError string
  | AttributeError string
  | KeyError string
  | Exception string

definition quoted :: "string \<Rightarrow> string" where
  "quoted s = [CHR 0x27] @ s @ [CHR 0x27]"

text \<open>\<^verbatim>\<open>str(e)\<close>: the message; for a \<^verbatim>\<open>KeyError\<close> the \<^verbatim>\<open>repr\<close> of the missing key (here
  for a key that needs no escapes).\<close>

fun str_exn :: "exn \<Rightarrow> string" where
  "str_exn (TypeError m) = m"
| "str_exn (AttributeError m) = m"
| "str_exn (KeyError k) = quoted k"
| "str_exn (Exception m) = m"

text \<open>The messages of the errors that come from using \<^verbatim>\<open>None\<close> as an object.\<close>

definition NoneType_not_callable :: string where
  "NoneType_not_callable = quoted ''NoneType'' @ '' object is not callable''"

definition NoneType_no_attribute :: "string \<Rightarrow> string" where
  "NoneType_no_attribute a = quoted ''NoneType'' @ '' object has no attribute '' @ quoted a"

text \<open>\<^verbatim>\<open>str(n)\<close> for an integer: the decimal digits, most significant first, with a
  leading minus sign for a negative number.\<close>

definition digit_char :: "nat \<Rightarrow> char" where
  "digit_char d = ''0123456789'' ! d"

fun str_nat :: "nat \<Rightarrow> string" where
  "str_nat n = (if n < 10 then [digit_char n] else str_nat (n div 10) @ [digit_char (n mod 10)])"

declare str_nat.simps [simp del]

definition py_str :: "int \<Rightarrow> string" where
  "py_str i = (if i < 0 then ''-'' @ str_nat (nat (- i)) else str_nat (nat i))"

text \<open>The conversion \<^verbatim>\<open>%02d\<close>: the decimal rendering, padded with zeros on the left
  to a width of at least two characters (the sign counts towards the width).\<close>

definition fmt_02d :: "int \<Rightarrow> string" where
  "fmt_02d i = (let s = py_str i in replicate (2 - length s) CHR ''0'' @ s)"






section \<open>Packets, message classes and the handler object\<close>

record header =
  h_stream :: int
  h_function :: int

record packet =
  p_header :: header
  p_data :: string

text \<open>
  An instance of a message class \<^verbatim>\<open>secsSxFx\<close> (module \<^verbatim>\<open>secsFunctions\<close>, outside this
  file): the name of its class and the value it holds (\<^verbatim>\<open>.get()\<close>).
\<close>

record secsFunction =
  f_name :: string
  f_value :: pyval

text \<open>
  A message class, the value stored in the stream/function tables.
  \<open>c_name\<close> is \<^verbatim>\<open>__name__\<close>; \<open>c_new args\<close> is the call \<^verbatim>\<open>cls(*args)\<close>;
  \<open>c_decode data\<close> is \<^verbatim>\<open>function = cls(); function.decode(data)\<close> and yields the
  instance afterwards, or the exception the codec raised.
\<close>

record secsClass =
  c_name :: string
  c_new :: "pyval list \<Rightarrow> exn + secsFunction"
  c_decode :: "string \<Rightarrow> exn + secsFunction"

type_synonym table = "int \<rightharpoonup> (int \<rightharpoonup> secsClass)"

text \<open>
  A registered callback. In the source it is any callable invoked as
  \<^verbatim>\<open>callback(self, response)\<close>; here it has a name, by which invocations are
  recorded, and a behaviour on the packet: the value returned or the exception raised.
\<close>

record callback =
  cb_name :: string
  cb_call :: "packet \<Rightarrow> exn + pyval"

datatype level = DEBUG | INFO | WARNING | ERROR

datatype hsmsConnection = HsmsConnection

text \<open>
  The handler object. \<open>logger\<close> is the list of emitted log records, oldest first;
  \<open>packetQueue\<close> is the queue filled by \<^verbatim>\<open>_queuePacket\<close>. Two fields are
  observations and not attributes of the source object: \<open>invoked\<close> lists the callback
  calls made, in order, and \<open>sent\<close> the messages handed to the transport.
\<close>

record handler =
  isHost :: bool
  secsStreamsFunctionsHost :: table
  secsStreamsFunctionsEquipment :: table
  callbacks :: "string \<rightharpoonup> callback list"
  connection :: "hsmsConnection option"
  logger :: "(level \<times> string) list"
  packetQueue :: "packet list"
  invoked :: "(string \<times> packet) list"
  sent :: "secsFunction list"

text \<open>
  What the handler uses from outside this file and only by its result:
  \<^verbatim>\<open>str(packet)\<close>, \<^verbatim>\<open>str(function)\<close>, \<^verbatim>\<open>traceback.format_stack()\<close>, the packet (or
  \<^verbatim>\<open>None\<close>, or an exception) with which the transport answers a message, and
  \<^verbatim>\<open>function[i]\<close> on a decoded message.
\<close>

record ext =
  str_packet :: "packet \<Rightarrow> string"
  str_function :: "secsFunction \<Rightarrow> string"
  format_stack :: "string list"
  transport_reply :: "secsFunction \<Rightarrow> exn + packet option"
  function_getitem :: "secsFunction \<Rightarrow> int \<Rightarrow> exn + pyval"

definition log :: "level \<Rightarrow> string \<Rightarrow> handler \<Rightarrow> handler" where
  "log lv msg st = st\<lparr>logger := logger st @ [(lv, msg)]\<rparr>"

definition unknown_function :: "int \<Rightarrow> int \<Rightarrow> string" where
  \<comment> \<open>\<^verbatim>\<open>"unknown function S%02dF%02d" % (stream, function)\<close>\<close>
  "unknown_function s f = ''unknown function S'' @ fmt_02d s @ ''F'' @ fmt_02d f"

definition queuePacket :: "handler \<Rightarrow> packet \<Rightarrow> handler" where
  \<comment> \<open>Modelled from the spec: \<^verbatim>\<open>_queuePacket\<close> is a method of \<^verbatim>\<open>hsmsHandler\<close>, which is
      not in this file; it pushes the packet to the order-preserving Unclaimed-Packet Queue.\<close>
  "queuePacket st p = st\<lparr>packetQueue := packetQueue st @ [p]\<rparr>"

definition sendAndWaitForResponse ::
  "ext \<Rightarrow> handler \<Rightarrow> secsFunction \<Rightarrow> (exn + packet option) \<times> handler" where
  \<comment> \<open>Modelled from the spec: \<^verbatim>\<open>sendAndWaitForResponse\<close> is a method of \<^verbatim>\<open>hsmsHandler\<close>,
      which is not in this file; without a connection it returns null at once, otherwise
      it sends the message through the transport and returns the answering packet.\<close>
  "sendAndWaitForResponse x st m =
     (if connection st = None then (Inr None, st)
      else (transport_reply x m, st\<lparr>sent := sent st @ [m]\<rparr>))"

section \<open>Function resolver and decoder\<close>

text \<open>What a table holds for a stream and function: nothing when the stream is absent, and
  nothing when the function is absent under the stream. The two methods below do not call
  it; it is used to state what they resolve.\<close>

definition descriptor_of :: "table \<Rightarrow> int \<Rightarrow> int \<Rightarrow> secsClass option" where
  "descriptor_of t stream function' = (case t stream of None \<Rightarrow> None | Some fs \<Rightarrow> fs function')"

definition streamFunction :: "handler \<Rightarrow> int \<Rightarrow> int \<Rightarrow> secsClass option \<times> handler" where
  "streamFunction st stream function' =
     (let secs_streams_functions =
            (if isHost st then secsStreamsFunctionsHost st else secsStreamsFunctionsEquipment st)
      in case secs_streams_functions stream of
           None \<Rightarrow> (None, log WARNING (unknown_function stream function') st)
         | Some fs \<Rightarrow>
             (case fs function' of
                None \<Rightarrow> (None, log WARNING (unknown_function stream function') st)
              | Some c \<Rightarrow> (Some c, st)))"

definition secsDecode :: "ext \<Rightarrow> handler \<Rightarrow> packet \<Rightarrow> (exn + secsFunction option) \<times> handler" where
  "secsDecode x st p =
     (let secs_streams_functions =
            (if isHost st then secsStreamsFunctionsEquipment st else secsStreamsFunctionsHost st);
          stream = h_stream (p_header p);
          function' = h_function (p_header p)
      in case secs_streams_functions stream of
           None \<Rightarrow> (Inr None, log WARNING (unknown_function stream function') st)
         | Some fs \<Rightarrow>
             (case fs function' of
                None \<Rightarrow> (Inr None, log WARNING (unknown_function stream function') st)
              | Some c \<Rightarrow>
                  (let st1 = log DEBUG (''decoding function S'' @ py_str stream @ ''F''
                                          @ py_str function' @ '' using '' @ c_name c) st
                   in case c_decode c (p_data p) of
                        Inl e \<Rightarrow> (Inl e, st1)
                      | Inr function'' \<Rightarrow>
                          (Inr (Some function''),
                           log DEBUG (''decoded '' @ str_function x function'') st1))))"

section \<open>Callback fan-out and the dispatcher\<close>

text \<open>
  The \<^verbatim>\<open>for\<close> loop of \<^verbatim>\<open>_runCallbacks\<close>, with the flag \<^verbatim>\<open>handeled\<close> as accumulator.
  An exception raised by a callback leaves the loop at once.
\<close>

fun callbacks_loop ::
  "callback list \<Rightarrow> packet \<Rightarrow> bool \<Rightarrow> handler \<Rightarrow> (exn + bool) \<times> handler" where
  "callbacks_loop [] response handeled st = (Inr handeled, st)"
| "callbacks_loop (cb # cbs) response handeled st =
     (let st1 = st\<lparr>invoked := invoked st @ [(cb_name cb, response)]\<rparr>
      in case cb_call cb response of
           Inl e \<Rightarrow> (Inl e, st1)
         | Inr v \<Rightarrow> callbacks_loop cbs response (if v \<noteq> PyBool False then True else handeled) st1)"

definition callback_runner_error :: "ext \<Rightarrow> exn \<Rightarrow> string" where
  "callback_runner_error x e =
     ''secsHandler.CallbackRunner : exception '' @ str_exn e @ [CHR 0x0A]
       @ concat (format_stack x)"

text \<open>
  \<^verbatim>\<open>_runCallbacks\<close>. The \<^verbatim>\<open>try\<close> encloses the lookup \<^verbatim>\<open>self.callbacks[callback_index]\<close>
  (a \<^verbatim>\<open>KeyError\<close> when the key is absent), the whole loop and the push to the queue.
\<close>

definition runCallbacks :: "ext \<Rightarrow> handler \<Rightarrow> string \<Rightarrow> packet \<Rightarrow> handler" where
  "runCallbacks x st callback_index response =
     (case callbacks st callback_index of
        None \<Rightarrow> log ERROR (callback_runner_error x (KeyError callback_index)) st
      | Some cbs \<Rightarrow>
          (case callbacks_loop cbs response False st of
             (Inl e, st1) \<Rightarrow> log ERROR (callback_runner_error x e) st1
           | (Inr handeled, st1) \<Rightarrow> if \<not> handeled then queuePacket st1 response else st1))"

definition callback_index_of :: "packet \<Rightarrow> string" where
  \<comment> \<open>\<^verbatim>\<open>"s" + str(packet.header.stream) + "f" + str(packet.header.function)\<close>\<close>
  "callback_index_of p =
     ''s'' @ py_str (h_stream (p_header p)) @ ''f'' @ py_str (h_function (p_header p))"

text \<open>
  \<^verbatim>\<open>_onHsmsPacketReceived\<close>. An exception of \<^verbatim>\<open>secsDecode\<close> is not caught here and
  leaves the method. The thread started for the callbacks is modelled by running its
  target \<^verbatim>\<open>_runCallbacks\<close> to completion at the point of the start; the target catches
  every exception, so none comes back.
\<close>

definition onHsmsPacketReceived :: "ext \<Rightarrow> handler \<Rightarrow> packet \<Rightarrow> (exn + unit) \<times> handler" where
  "onHsmsPacketReceived x st p =
     (case secsDecode x st p of
        (Inl e, st1) \<Rightarrow> (Inl e, st1)
      | (Inr message, st1) \<Rightarrow>
          (let st2 = (case message of
                        None \<Rightarrow> log INFO (''< '' @ str_packet x p) st1
                      | Some m \<Rightarrow> log INFO (''< '' @ str_packet x p @ [CHR 0x0A]
                                              @ str_function x m) st1);
               callback_index = callback_index_of p
           in if callback_index \<in> dom (callbacks st2)
              then (Inr (), runCallbacks x st2 callback_index p)
              else (Inr (), queuePacket st2 p)))"

section \<open>Convenience operations\<close>

text \<open>Sequencing of two steps, the second skipped when the first raised.\<close>

definition then_do ::
  "(exn + 'a) \<times> handler \<Rightarrow> ('a \<Rightarrow> handler \<Rightarrow> (exn + 'b) \<times> handler) \<Rightarrow> (exn + 'b) \<times> handler" where
  "then_do r k = (case r of (Inl e, st) \<Rightarrow> (Inl e, st) | (Inr v, st) \<Rightarrow> k v st)"

text \<open>
  The expression \<^verbatim>\<open>self.sendAndWaitForResponse(self.streamFunction(s, f)(args))\<close>:
  calling the result of \<^verbatim>\<open>streamFunction\<close> raises \<^verbatim>\<open>TypeError\<close> when it is \<^verbatim>\<open>None\<close>.
\<close>

definition send_streamFunction ::
  "ext \<Rightarrow> handler \<Rightarrow> int \<Rightarrow> int \<Rightarrow> pyval list \<Rightarrow> (exn + packet option) \<times> handler" where
  "send_streamFunction x st s f args =
     (case streamFunction st s f of
        (None, st1) \<Rightarrow> (Inl (TypeError NoneType_not_callable), st1)
      | (Some c, st1) \<Rightarrow>
          (case c_new c args of
             Inl e \<Rightarrow> (Inl e, st1)
           | Inr m \<Rightarrow> sendAndWaitForResponse x st1 m))"

text \<open>\<^verbatim>\<open>self.secsDecode(packet)\<close> on what \<^verbatim>\<open>sendAndWaitForResponse\<close> returned: on
  \<^verbatim>\<open>None\<close> the read of \<^verbatim>\<open>packet.header\<close> raises \<^verbatim>\<open>AttributeError\<close>.\<close>

definition secsDecode_response ::
  "ext \<Rightarrow> packet option \<Rightarrow> handler \<Rightarrow> (exn + secsFunction option) \<times> handler" where
  "secsDecode_response x r st =
     (case r of
        None \<Rightarrow> (Inl (AttributeError (NoneType_no_attribute ''header'')), st)
      | Some p \<Rightarrow> secsDecode x st p)"

definition disableCEIDs :: "ext \<Rightarrow> handler \<Rightarrow> (exn + packet option) \<times> handler" where
  "disableCEIDs x st =
     (if connection st = None then (Inr None, st)
      else send_streamFunction x st 2 37
             [PyDict [(''CEED'', PyBool False), (''CEID'', PyList [])]])"

definition disableCEIDReports :: "ext \<Rightarrow> handler \<Rightarrow> (exn + packet option) \<times> handler" where
  "disableCEIDReports x st =
     (if connection st = None then (Inr None, st)
      else send_streamFunction x st 2 33
             [PyDict [(''DATAID'', PyInt 0), (''DATA'', PyList [])]])"

definition listSVs :: "ext \<Rightarrow> handler \<Rightarrow> (exn + secsFunction option) \<times> handler" where
  "listSVs x st =
     (if connection st = None then (Inr None, st)
      else then_do (send_streamFunction x st 1 11 [PyList []]) (secsDecode_response x))"

definition requestSVs :: "ext \<Rightarrow> handler \<Rightarrow> pyval \<Rightarrow> (exn + secsFunction option) \<times> handler" where
  "requestSVs x st svs =
     (if connection st = None then (Inr None, st)
      else then_do (send_streamFunction x st 1 3 [svs]) (secsDecode_response x))"

text \<open>\<^verbatim>\<open>return self.requestSVs([sv])[0]\<close>: subscripting \<^verbatim>\<open>None\<close> raises \<^verbatim>\<open>TypeError\<close>.\<close>

definition requestSV :: "ext \<Rightarrow> handler \<Rightarrow> pyval \<Rightarrow> (exn + pyval) \<times> handler" where
  "requestSV x st sv =
     then_do (requestSVs x st (PyList [sv]))
       (\<lambda>r st1. case r of
                   None \<Rightarrow> (Inl (TypeError (NoneType_no_attribute ''__getitem__'')), st1)
                 | Some m \<Rightarrow> (function_getitem x m 0, st1))"

definition listECs :: "ext \<Rightarrow> handler \<Rightarrow> (exn + secsFunction option) \<times> handler" where
  "listECs x st =
     (if connection st = None then (Inr None, st)
      else then_do (send_streamFunction x st 2 29 [PyList []]) (secsDecode_response x))"

definition requestECs :: "ext \<Rightarrow> handler \<Rightarrow> pyval \<Rightarrow> (exn + secsFunction option) \<times> handler" where
  "requestECs x st ecs =
     (if connection st = None then (Inr None, st)
      else then_do (send_streamFunction x st 2 13 [ecs]) (secsDecode_response x))"

definition requestEC :: "ext \<Rightarrow> handler \<Rightarrow> pyval \<Rightarrow> (exn + secsFunction option) \<times> handler" where
  "requestEC x st ec = requestECs x st (PyList [ec])"

text \<open>\<^verbatim>\<open>return self.secsDecode(packet).get()\<close>; the result \<^verbatim>\<open>None\<close> is \<open>PyNone\<close>.\<close>

definition setECs :: "ext \<Rightarrow> handler \<Rightarrow> pyval \<Rightarrow> (exn + pyval) \<times> handler" where
  "setECs x st ecs =
     (if connection st = None then (Inr PyNone, st)
      else then_do (then_do (send_streamFunction x st 2 15 [ecs]) (secsDecode_response x))
             (\<lambda>r st1. case r of
                         None \<Rightarrow> (Inl (AttributeError (NoneType_no_attribute ''get'')), st1)
                       | Some m \<Rightarrow> (Inr (f_value m), st1)))"

definition setEC :: "ext \<Rightarrow> handler \<Rightarrow> pyval \<Rightarrow> pyval \<Rightarrow> (exn + pyval) \<times> handler" where
  "setEC x st ec val = setECs x st (PyList [PyList [ec, val]])"

definition sendEquipmentTerminal ::
  "ext \<Rightarrow> handler \<Rightarrow> pyval \<Rightarrow> pyval \<Rightarrow> (exn + packet option) \<times> handler" where
  "sendEquipmentTerminal x st terminal_id text' =
     (if connection st = None then (Inr None, st)
      else send_streamFunction x st 10 3 [PyDict [(''TID'', terminal_id), (''TEXT'', text')]])"

text \<open>\<^verbatim>\<open>areYouThere\<close> returns \<^verbatim>\<open>None\<close> on both paths; the answer is dropped.\<close>

definition areYouThere :: "ext \<Rightarrow> handler \<Rightarrow> (exn + pyval) \<times> handler" where
  "areYouThere x st =
     (if connection st = None then (Inr PyNone, st)
      else then_do (send_streamFunction x st 1 1 []) (\<lambda>_ st1. (Inr PyNone, st1)))"

section \<open>The class attributes and handler construction\<close>

text \<open>
  The two tables are class attributes, bound when the class body runs:
  \<^verbatim>\<open>secsStreamsFunctionsHost = copy.deepcopy(secsFunctions.secsStreamsFunctionsHost)\<close>
  and likewise for the equipment table. Whether two handler objects see the same
  dictionary depends on which object each name refers to, so dictionaries live in a
  store, addressed by numbers. A table (the dictionary of dictionaries of classes) is
  one stored object: \<^verbatim>\<open>deepcopy\<close> copies every level, and the classes themselves are
  copied by reference.
\<close>

type_synonym addr = nat

record store =
  objects :: "addr \<rightharpoonup> table"
  fresh :: addr

text \<open>The module \<^verbatim>\<open>secsFunctions\<close>: the prototype tables.\<close>

record secsFunctions_module =
  mod_secsStreamsFunctionsHost :: addr
  mod_secsStreamsFunctionsEquipment :: addr

text \<open>The class object \<^verbatim>\<open>secsHandler\<close>: its two table attributes.\<close>

record secsHandler_class =
  cls_secsStreamsFunctionsHost :: addr
  cls_secsStreamsFunctionsEquipment :: addr

text \<open>A handler object: \<open>self_dict\<close> is the part of its \<^verbatim>\<open>__dict__\<close> that can hold
  tables, by attribute name.\<close>

record handler_object =
  self_isHost :: bool
  self_dict :: "string \<rightharpoonup> addr"

definition deepcopy :: "store \<Rightarrow> addr \<Rightarrow> (addr \<times> store) option" where
  "deepcopy s a =
     (case objects s a of
        None \<Rightarrow> None
      | Some t \<Rightarrow> Some (fresh s, s\<lparr>objects := (objects s)(fresh s \<mapsto> t), fresh := Suc (fresh s)\<rparr>))"

definition class_body :: "secsFunctions_module \<Rightarrow> store \<Rightarrow> (secsHandler_class \<times> store) option" where
  \<comment> \<open>lines 88 and 89, run once when the class is defined\<close>
  "class_body m s =
     (case deepcopy s (mod_secsStreamsFunctionsHost m) of
        None \<Rightarrow> None
      | Some (h, s1) \<Rightarrow>
          (case deepcopy s1 (mod_secsStreamsFunctionsEquipment m) of
             None \<Rightarrow> None
           | Some (e, s2) \<Rightarrow>
               Some (\<lparr>cls_secsStreamsFunctionsHost = h, cls_secsStreamsFunctionsEquipment = e\<rparr>, s2)))"

definition init :: "store \<Rightarrow> handler_object \<times> store" where
  \<comment> \<open>\<^verbatim>\<open>__init__\<close>: after the initialisers of the two base classes, which receive the
      connection parameters only, it sets \<^verbatim>\<open>self.logger\<close> and \<^verbatim>\<open>self.isHost = True\<close>;
      it binds no table and copies none\<close>
  "init s = (\<lparr>self_isHost = True, self_dict = Map.empty\<rparr>, s)"

definition class_attr :: "secsHandler_class \<Rightarrow> string \<Rightarrow> addr option" where
  "class_attr c name =
     (if name = ''secsStreamsFunctionsHost'' then Some (cls_secsStreamsFunctionsHost c)
      else if name = ''secsStreamsFunctionsEquipment'' then Some (cls_secsStreamsFunctionsEquipment c)
      else None)"

definition getattr :: "secsHandler_class \<Rightarrow> handler_object \<Rightarrow> string \<Rightarrow> addr option" where
  \<comment> \<open>attribute lookup \<^verbatim>\<open>self.name\<close>: the object's own dictionary, then the class\<close>
  "getattr c self name =
     (case self_dict self name of Some a \<Rightarrow> Some a | None \<Rightarrow> class_attr c name)"

definition read_table :: "store \<Rightarrow> secsHandler_class \<Rightarrow> handler_object \<Rightarrow> string \<Rightarrow> table option" where
  "read_table s c self name =
     (case getattr c self name of None \<Rightarrow> None | Some a \<Rightarrow> objects s a)"

definition table_setitem :: "table \<Rightarrow> int \<Rightarrow> int \<Rightarrow> secsClass \<Rightarrow> table" where
  "table_setitem t stream function' cl =
     t(stream \<mapsto> (case t stream of None \<Rightarrow> [function' \<mapsto> cl] | Some fs \<Rightarrow> fs(function' \<mapsto> cl)))"

definition setitem ::
  "store \<Rightarrow> secsHandler_class \<Rightarrow> handler_object \<Rightarrow> string \<Rightarrow> int \<Rightarrow> int \<Rightarrow> secsClass \<Rightarrow> store option" where
  \<comment> \<open>a mutation made through one handler object: the entry for a stream and function of
      the table \<^verbatim>\<open>self.name\<close> is assigned in place (the stream's dictionary is created when
      the table has none)\<close>
  "setitem s c self name stream function' cl =
     (case getattr c self name of
        None \<Rightarrow> None
      | Some a \<Rightarrow>
          (case objects s a of
             None \<Rightarrow> None
           | Some t \<Rightarrow> Some (s\<lparr>objects := (objects s)(a \<mapsto> table_setitem t stream function' cl)\<rparr>)))"

definition lookup_class_name :: "table option \<Rightarrow> int \<Rightarrow> int \<Rightarrow> string option" where
  "lookup_class_name t stream function' =
     (case t of
        None \<Rightarrow> None
      | Some tb \<Rightarrow> (case tb stream of None \<Rightarrow> None | Some fs \<Rightarrow> map_option c_name (fs function')))"

section \<open>Concrete objects for the examples\<close>

text \<open>A packet with a given stream, function and body; collaborators that render a packet by
  its key and a message by its class name; a message class whose decoding succeeds and one
  whose decoding the codec rejects; callbacks that return a value or raise; and a handler
  acting as host, with no connection and an empty registry.\<close>

definition packet_of :: "int \<Rightarrow> int \<Rightarrow> string \<Rightarrow> packet" where
  "packet_of s f d = \<lparr>p_header = \<lparr>h_stream = s, h_function = f\<rparr>, p_data = d\<rparr>"

definition example_ext :: ext where
  "example_ext =
     \<lparr>str_packet = callback_index_of,
      str_function = f_name,
      format_stack = [],
      transport_reply = (\<lambda>m. Inr None),
      function_getitem = (\<lambda>m i. Inr PyNone)\<rparr>"

definition decoding_class :: "string \<Rightarrow> secsClass" where
  "decoding_class n =
     \<lparr>c_name = n,
      c_new = (\<lambda>args. Inr \<lparr>f_name = n, f_value = PyList args\<rparr>),
      c_decode = (\<lambda>d. Inr \<lparr>f_name = n, f_value = PyStr d\<rparr>)\<rparr>"

definition rejecting_class :: "string \<Rightarrow> secsClass" where
  "rejecting_class n =
     \<lparr>c_name = n,
      c_new = (\<lambda>args. Inr \<lparr>f_name = n, f_value = PyList args\<rparr>),
      c_decode = (\<lambda>d. Inl (Exception ''malformed item''))\<rparr>"

definition returning :: "string \<Rightarrow> pyval \<Rightarrow> callback" where
  "returning n v = \<lparr>cb_name = n, cb_call = (\<lambda>p. Inr v)\<rparr>"

definition raising :: "string \<Rightarrow> string \<Rightarrow> callback" where
  "raising n m = \<lparr>cb_name = n, cb_call = (\<lambda>p. Inl (Exception m))\<rparr>"

definition example_handler :: handler where
  "example_handler =
     \<lparr>isHost = True,
      secsStreamsFunctionsHost = [1 \<mapsto> [1 \<mapsto> decoding_class ''secsS01F01'']],
      secsStreamsFunctionsEquipment =
        [1 \<mapsto> [2 \<mapsto> decoding_class ''secsS01F02''],
         6 \<mapsto> [11 \<mapsto> rejecting_class ''secsS06F11'']],
      callbacks = Map.empty,
      connection = None,
      logger = [],
      packetQueue = [],
      invoked = [],
      sent = []\<rparr>"

text \<open>A store holding the two prototype tables of the module, and the scenario of two
  handlers of one class: the class body runs, two handlers are constructed, an entry of
  the named table is assigned through the first, and the class name found at that entry
  through the second is read before and after the assignment.\<close>

definition example_store :: store where
  "example_store =
     \<lparr>objects = [0 \<mapsto> [1 \<mapsto> [1 \<mapsto> decoding_class ''secsS01F01'']],
                 1 \<mapsto> [1 \<mapsto> [2 \<mapsto> decoding_class ''secsS01F02'']]],
      fresh = 2\<rparr>"

definition example_module :: secsFunctions_module where
  "example_module = \<lparr>mod_secsStreamsFunctionsHost = 0, mod_secsStreamsFunctionsEquipment = 1\<rparr>"

definition seen_by_second_handler ::
  "secsFunctions_module \<Rightarrow> store \<Rightarrow> string \<Rightarrow> int \<Rightarrow> int \<Rightarrow> secsClass
     \<Rightarrow> (string option \<times> string option) option" where
  "seen_by_second_handler m s0 name stream function' cl =
     (case class_body m s0 of
        None \<Rightarrow> None
      | Some (cls, s1) \<Rightarrow>
          (case init s1 of
             (h1, s2) \<Rightarrow>
               (case init s2 of
                  (h2, s3) \<Rightarrow>
                    (case setitem s3 cls h1 name stream function' cl of
                       None \<Rightarrow> None
                     | Some s4 \<Rightarrow>
                         Some (lookup_class_name (read_table s3 cls h2 name) stream function',
                               lookup_class_name (read_table s4 cls h2 name) stream function')))))"

section \<open>Properties of the string rendering\<close>





lemma str_nat_not_Nil: "str_nat n \<noteq> []"
  by (subst str_nat.simps) simp










lemma fmt_02d_neg: "i < 0 \<Longrightarrow> fmt_02d i = py_str i"
  using str_nat_not_Nil[of "nat (- i)"] by (cases "str_nat (nat (- i))") (auto simp add: fmt_02d_def py_str_def Let_def)




section \<open>Properties of logging and the queue\<close>

lemma log_simps:
  "logger (log lv msg st) = logger st @ [(lv, msg)]"
  "isHost (log lv msg st) = isHost st"
  "secsStreamsFunctionsHost (log lv msg st) = secsStreamsFunctionsHost st"
  "secsStreamsFunctionsEquipment (log lv msg st) = secsStreamsFunctionsEquipment st"
  "callbacks (log lv msg st) = callbacks st"
  "connection (log lv msg st) = connection st"
  "packetQueue (log lv msg st) = packetQueue st"
  "invoked (log lv msg st) = invoked st"
  "sent (log lv msg st) = sent st"
  by (simp_all add: log_def)

lemma queuePacket_simps:
  "packetQueue (queuePacket st p) = packetQueue st @ [p]"
  "logger (queuePacket st p) = logger st"
  "callbacks (queuePacket st p) = callbacks st"
  "invoked (queuePacket st p) = invoked st"
  "sent (queuePacket st p) = sent st"
  "connection (queuePacket st p) = connection st"
  by (simp_all add: queuePacket_def)

lemma render_simps:
  "py_str 1 = ''1''" "py_str 2 = ''2''" "py_str 3 = ''3''" "py_str 6 = ''6''" "py_str 11 = ''11''"
  "fmt_02d 1 = ''01''" "fmt_02d 99 = ''99''" "fmt_02d 100 = ''100''" "fmt_02d 3 = ''03''"
  by (simp_all add: fmt_02d_def py_str_def str_nat.simps digit_char_def)

section \<open>Properties of the fan-out loop and the dispatcher\<close>

lemma secsDecode_keeps:
  "callbacks (snd (secsDecode x st p)) = callbacks st"
  "packetQueue (snd (secsDecode x st p)) = packetQueue st"
  "invoked (snd (secsDecode x st p)) = invoked st"
  by (simp_all add: secsDecode_def Let_def log_simps split: option.split sum.split)



lemma callbacks_loop_returns:
  "\<forall>cb \<in> set cbs. \<exists>v. cb_call cb p = Inr v \<Longrightarrow>
   callbacks_loop cbs p h st =
     (Inr (h \<or> (\<exists>cb \<in> set cbs. cb_call cb p \<noteq> Inr (PyBool False))),
      st\<lparr>invoked := invoked st @ map (\<lambda>cb. (cb_name cb, p)) cbs\<rparr>)"
proof (induction cbs arbitrary: h st)
  case Nil
  then show ?case by simp
next
  case (Cons cb cbs)
  from Cons.prems obtain v where v: "cb_call cb p = Inr v" by auto
  from Cons.prems have rest: "\<forall>cb \<in> set cbs. \<exists>v. cb_call cb p = Inr v" by simp
  show ?case
    using v by (auto simp: Cons.IH[OF rest] Let_def)
qed

lemma callbacks_loop_raises:
  "\<forall>c \<in> set pre. \<exists>v. cb_call c p = Inr v \<Longrightarrow> cb_call cb p = Inl e \<Longrightarrow>
   callbacks_loop (pre @ cb # post) p h st =
     (Inl e, st\<lparr>invoked := invoked st @ map (\<lambda>c. (cb_name c, p)) (pre @ [cb])\<rparr>)"
proof (induction pre arbitrary: h st)
  case Nil
  then show ?case by (simp add: Let_def)
next
  case (Cons c pre)
  from Cons.prems obtain v where v: "cb_call c p = Inr v" by auto
  from Cons.prems have rest: "\<forall>c \<in> set pre. \<exists>v. cb_call c p = Inr v" by simp
  show ?case
    using v by (simp add: Cons.IH[OF rest Cons.prems(2)] Let_def)
qed

lemma callbacks_loop_handled_stays:
  "fst (callbacks_loop cbs p True st) \<noteq> Inr False"
  by (induction cbs arbitrary: st) (simp_all add: Let_def split: sum.split)

lemma callbacks_loop_some_handled:
  "\<exists>cb \<in> set cbs. \<exists>v. cb_call cb p = Inr v \<and> v \<noteq> PyBool False \<Longrightarrow>
   fst (callbacks_loop cbs p h st) \<noteq> Inr False"
proof (induction cbs arbitrary: h st)
  case Nil
  then show ?case by simp
next
  case (Cons c cbs)
  show ?case
  proof (cases "cb_call c p")
    case (Inl e)
    then show ?thesis by (simp add: Let_def)
  next
    case (Inr v)
    show ?thesis
    proof (cases "v = PyBool False")
      case True
      with Inr Cons.prems have "\<exists>cb \<in> set cbs. \<exists>v. cb_call cb p = Inr v \<and> v \<noteq> PyBool False"
        by auto
      from Cons.IH[OF this] Inr True show ?thesis by (simp add: Let_def)
    next
      case False
      with Inr show ?thesis by (simp add: Let_def callbacks_loop_handled_stays)
    qed
  qed
qed

lemma callbacks_loop_queue:
  "packetQueue (snd (callbacks_loop cbs p h st)) = packetQueue st"
  by (induction cbs arbitrary: h st) (simp_all add: Let_def split: sum.split)



section \<open>The claims\<close>

text \<open>
  Claim C1. For every packet, \<^verbatim>\<open>secsDecode\<close> resolves the message class in the table of
  the role opposite to the handler's own: the equipment table when \<open>isHost\<close> is true, the
  host table when it is false. The result is the class found there for the packet's stream
  and function, applied to the body, or \<^verbatim>\<open>None\<close> when that table has no entry; the table
  of the handler's own role is never read, so replacing it changes neither the result nor
  what is logged.
\<close>

theorem secsDecode_opposite_role_table:
  "fst (secsDecode x st p) =
     (case descriptor_of (if isHost st then secsStreamsFunctionsEquipment st
                          else secsStreamsFunctionsHost st)
             (h_stream (p_header p)) (h_function (p_header p)) of
        None \<Rightarrow> Inr None
      | Some c \<Rightarrow> (case c_decode c (p_data p) of Inl e \<Rightarrow> Inl e | Inr m \<Rightarrow> Inr (Some m)))
   \<and> (isHost st \<longrightarrow>
        fst (secsDecode x (st\<lparr>secsStreamsFunctionsHost := t\<rparr>) p) = fst (secsDecode x st p)
        \<and> logger (snd (secsDecode x (st\<lparr>secsStreamsFunctionsHost := t\<rparr>) p))
            = logger (snd (secsDecode x st p)))
   \<and> (\<not> isHost st \<longrightarrow>
        fst (secsDecode x (st\<lparr>secsStreamsFunctionsEquipment := t\<rparr>) p) = fst (secsDecode x st p)
        \<and> logger (snd (secsDecode x (st\<lparr>secsStreamsFunctionsEquipment := t\<rparr>) p))
            = logger (snd (secsDecode x st p)))"
  by (simp add: secsDecode_def descriptor_of_def Let_def log_simps
           split: option.split sum.split)

theorem secsDecode_opposite_role_table_witness:
  "isHost example_handler
   \<and> fst (secsDecode example_ext example_handler (packet_of 1 2 ''x''))
        = Inr (Some \<lparr>f_name = ''secsS01F02'', f_value = PyStr ''x''\<rparr>)
   \<and> fst (secsDecode example_ext example_handler (packet_of 1 1 ''x'')) = Inr None
   \<and> fst (secsDecode example_ext (example_handler\<lparr>secsStreamsFunctionsHost := Map.empty\<rparr>)
             (packet_of 1 2 ''x''))
        = fst (secsDecode example_ext example_handler (packet_of 1 2 ''x''))"
  using secsDecode_opposite_role_table[of example_ext example_handler "packet_of 1 2 ''x''" Map.empty]
    secsDecode_opposite_role_table[of example_ext example_handler "packet_of 1 1 ''x''" Map.empty]
  by (simp add: packet_of_def example_ext_def decoding_class_def rejecting_class_def example_handler_def
      descriptor_of_def)









text \<open>
  Claim C10. In the fan-out a callback counts as "not handled" only when it returns the
  value \<^verbatim>\<open>False\<close> itself: when every callback returns, the packet is pushed to the queue
  exactly when each of them returned \<^verbatim>\<open>False\<close>. Any other value, \<^verbatim>\<open>None\<close> included,
  counts as handled, and as soon as one callback returns such a value the packet is not
  pushed.
\<close>

theorem runCallbacks_not_handled_only_literal_False:
  assumes "callbacks st callback_index = Some cbs"
  shows "((\<forall>cb \<in> set cbs. \<exists>v. cb_call cb p = Inr v) \<longrightarrow>
            (packetQueue (runCallbacks x st callback_index p) = packetQueue st @ [p])
              = (\<forall>cb \<in> set cbs. cb_call cb p = Inr (PyBool False)))
       \<and> ((\<exists>cb \<in> set cbs. \<exists>v. cb_call cb p = Inr v \<and> v \<noteq> PyBool False) \<longrightarrow>
            packetQueue (runCallbacks x st callback_index p) = packetQueue st)"
proof (intro conjI impI)
  assume ret: "\<forall>cb \<in> set cbs. \<exists>v. cb_call cb p = Inr v"
  show "(packetQueue (runCallbacks x st callback_index p) = packetQueue st @ [p])
              = (\<forall>cb \<in> set cbs. cb_call cb p = Inr (PyBool False))"
    using assms
    by (auto simp: runCallbacks_def callbacks_loop_returns[OF ret] queuePacket_def)
next
  assume "\<exists>cb \<in> set cbs. \<exists>v. cb_call cb p = Inr v \<and> v \<noteq> PyBool False"
  then have "fst (callbacks_loop cbs p False st) \<noteq> Inr False"
    by (rule callbacks_loop_some_handled)
  then show "packetQueue (runCallbacks x st callback_index p) = packetQueue st"
    using assms callbacks_loop_queue[of cbs p False st]
    by (auto simp: runCallbacks_def log_simps split: prod.split sum.split)
qed

theorem runCallbacks_not_handled_only_literal_False_witness:
  "packetQueue (runCallbacks example_ext
      (example_handler\<lparr>callbacks := [''s6f11'' \<mapsto> [returning ''a'' (PyBool False), returning ''b'' PyNone]]\<rparr>)
      ''s6f11'' (packet_of 6 11 '''')) = []
   \<and> packetQueue (runCallbacks example_ext
      (example_handler\<lparr>callbacks := [''s6f11'' \<mapsto> [returning ''a'' (PyBool False)]]\<rparr>)
      ''s6f11'' (packet_of 6 11 '''')) = [packet_of 6 11 '''']
   \<and> packetQueue (runCallbacks example_ext
      (example_handler\<lparr>callbacks := [''s6f11'' \<mapsto> [returning ''a'' (PyInt 0)]]\<rparr>)
      ''s6f11'' (packet_of 6 11 '''')) = []"
  using runCallbacks_not_handled_only_literal_False[of
      "example_handler\<lparr>callbacks := [''s6f11'' \<mapsto> [returning ''a'' (PyBool False), returning ''b'' PyNone]]\<rparr>"
      "''s6f11''" "[returning ''a'' (PyBool False), returning ''b'' PyNone]"
      "packet_of 6 11 ''''" example_ext]
    runCallbacks_not_handled_only_literal_False[of
      "example_handler\<lparr>callbacks := [''s6f11'' \<mapsto> [returning ''a'' (PyBool False)]]\<rparr>"
      "''s6f11''" "[returning ''a'' (PyBool False)]"
      "packet_of 6 11 ''''" example_ext]
    runCallbacks_not_handled_only_literal_False[of
      "example_handler\<lparr>callbacks := [''s6f11'' \<mapsto> [returning ''a'' (PyInt 0)]]\<rparr>"
      "''s6f11''" "[returning ''a'' (PyInt 0)]"
      "packet_of 6 11 ''''" example_ext]
  by (simp add: returning_def example_handler_def)

lemma runCallbacks_raises:
  assumes "callbacks st callback_index = Some (pre @ cb # post)"
    and "\<forall>c \<in> set pre. \<exists>v. cb_call c p = Inr v"
    and "cb_call cb p = Inl e"
  shows "runCallbacks x st callback_index p =
           st\<lparr>invoked := invoked st @ map (\<lambda>c. (cb_name c, p)) (pre @ [cb]),
               logger := logger st @ [(ERROR, callback_runner_error x e)]\<rparr>"
  using assms(1)
  by (simp add: runCallbacks_def callbacks_loop_raises[OF assms(2,3)] log_def)

lemma onHsmsPacketReceived_returns:
  assumes "fst (secsDecode x st p) = Inr m"
  shows "fst (onHsmsPacketReceived x st p) = Inr ()"
  using assms
  by (cases "secsDecode x st p") (simp add: onHsmsPacketReceived_def Let_def)

text \<open>
  Claim C2, as amended. When a callback in the list of a packet's key raises an error, the
  error is caught in \<^verbatim>\<open>_runCallbacks\<close> and logged at error level, and no exception leaves
  the method, so the dispatcher is not aborted. The \<^verbatim>\<open>try\<close> encloses the whole loop: the
  callbacks registered before the raising one have been invoked, those registered after it
  are not invoked for this packet, and the packet is not pushed to the queue.
\<close>

theorem runCallbacks_exception_caught:
  assumes "callbacks st callback_index = Some (pre @ cb # post)"
    and "\<forall>c \<in> set pre. \<exists>v. cb_call c p = Inr v"
    and "cb_call cb p = Inl e"
  shows "runCallbacks x st callback_index p =
           st\<lparr>invoked := invoked st @ map (\<lambda>c. (cb_name c, p)) (pre @ [cb]),
               logger := logger st @ [(ERROR, callback_runner_error x e)]\<rparr>
       \<and> (fst (secsDecode x st p) = Inr m \<longrightarrow> fst (onHsmsPacketReceived x st p) = Inr ())"
  using runCallbacks_raises[OF assms] onHsmsPacketReceived_returns[of x st p m]
  by simp

theorem runCallbacks_exception_caught_witness:
  "runCallbacks example_ext
     (example_handler\<lparr>callbacks :=
        [''s1f2'' \<mapsto> [returning ''a'' PyNone, raising ''b'' ''boom'', returning ''c'' PyNone]]\<rparr>)
     ''s1f2'' (packet_of 1 2 '''')
   = example_handler\<lparr>callbacks :=
        [''s1f2'' \<mapsto> [returning ''a'' PyNone, raising ''b'' ''boom'', returning ''c'' PyNone]],
       invoked := [(''a'', packet_of 1 2 ''''), (''b'', packet_of 1 2 '''')],
       logger := [(ERROR, ''secsHandler.CallbackRunner : exception boom'' @ [CHR 0x0A])]\<rparr>
   \<and> fst (onHsmsPacketReceived example_ext
     (example_handler\<lparr>callbacks :=
        [''s1f2'' \<mapsto> [returning ''a'' PyNone, raising ''b'' ''boom'', returning ''c'' PyNone]]\<rparr>)
     (packet_of 1 2 '''')) = Inr ()"
  using runCallbacks_exception_caught[of
     "example_handler\<lparr>callbacks :=
        [''s1f2'' \<mapsto> [returning ''a'' PyNone, raising ''b'' ''boom'', returning ''c'' PyNone]]\<rparr>"
     "''s1f2''" "[returning ''a'' PyNone]" "raising ''b'' ''boom''" "[returning ''c'' PyNone]"
     "packet_of 1 2 ''''" "Exception ''boom''" example_ext
     "Some \<lparr>f_name = ''secsS01F02'', f_value = PyStr ''''\<rparr>"]
  by (simp add: packet_of_def example_ext_def decoding_class_def rejecting_class_def example_handler_def returning_def raising_def
      callback_runner_error_def secsDecode_def Let_def log_def)

theorem runCallbacks_sibling_skipped_counterexample:
  "callbacks (example_handler\<lparr>callbacks :=
        [''s1f2'' \<mapsto> [raising ''a'' ''boom'', returning ''b'' (PyBool True)]]\<rparr>) ''s1f2''
     = Some [raising ''a'' ''boom'', returning ''b'' (PyBool True)]
   \<and> cb_call (raising ''a'' ''boom'') (packet_of 1 2 '''') = Inl (Exception ''boom'')
   \<and> invoked (runCallbacks example_ext
        (example_handler\<lparr>callbacks :=
           [''s1f2'' \<mapsto> [raising ''a'' ''boom'', returning ''b'' (PyBool True)]]\<rparr>)
        ''s1f2'' (packet_of 1 2 '''')) = [(''a'', packet_of 1 2 '''')]
   \<and> packetQueue (runCallbacks example_ext
        (example_handler\<lparr>callbacks :=
           [''s1f2'' \<mapsto> [raising ''a'' ''boom'', returning ''b'' (PyBool True)]]\<rparr>)
        ''s1f2'' (packet_of 1 2 '''')) = []"
  by (simp add: packet_of_def example_ext_def decoding_class_def rejecting_class_def example_handler_def returning_def raising_def
      runCallbacks_def Let_def log_def)

text \<open>
  Claim C4, as amended. When the packet's stream and function are not found in the decode
  table, the dispatcher logs the miss and still dispatches the raw packet by its header: to
  the callbacks of its key when the key is registered, to the queue otherwise. When the
  class is found and the codec's decode raises on the body, the error is not caught: it
  leaves the dispatcher, and the packet is neither handed to callbacks nor queued.
\<close>

theorem onHsmsPacketReceived_decode_failure:
  assumes "tbl = (if isHost st then secsStreamsFunctionsEquipment st else secsStreamsFunctionsHost st)"
    and "s = h_stream (p_header p)"
    and "f = h_function (p_header p)"
  shows "(descriptor_of tbl s f = None \<longrightarrow>
            onHsmsPacketReceived x st p =
              (Inr (),
               if callback_index_of p \<in> dom (callbacks st)
               then runCallbacks x
                      (log INFO (''< '' @ str_packet x p) (log WARNING (unknown_function s f) st))
                      (callback_index_of p) p
               else queuePacket
                      (log INFO (''< '' @ str_packet x p) (log WARNING (unknown_function s f) st)) p))
       \<and> (descriptor_of tbl s f = Some c \<and> c_decode c (p_data p) = Inl e \<longrightarrow>
            onHsmsPacketReceived x st p =
              (Inl e, log DEBUG (''decoding function S'' @ py_str s @ ''F'' @ py_str f
                                   @ '' using '' @ c_name c) st)
            \<and> packetQueue (snd (onHsmsPacketReceived x st p)) = packetQueue st
            \<and> invoked (snd (onHsmsPacketReceived x st p)) = invoked st)"
proof (rule conjI; rule impI)
  assume miss: "descriptor_of tbl s f = None"
  then have dec: "secsDecode x st p = (Inr None, log WARNING (unknown_function s f) st)"
    using assms
    by (cases "isHost st")
       (auto simp: secsDecode_def descriptor_of_def Let_def split: option.splits)
  show "onHsmsPacketReceived x st p =
              (Inr (),
               if callback_index_of p \<in> dom (callbacks st)
               then runCallbacks x
                      (log INFO (''< '' @ str_packet x p) (log WARNING (unknown_function s f) st))
                      (callback_index_of p) p
               else queuePacket
                      (log INFO (''< '' @ str_packet x p) (log WARNING (unknown_function s f) st)) p)"
    by (simp add: onHsmsPacketReceived_def dec Let_def log_simps)
next
  assume hit: "descriptor_of tbl s f = Some c \<and> c_decode c (p_data p) = Inl e"
  then have dec: "secsDecode x st p =
      (Inl e, log DEBUG (''decoding function S'' @ py_str s @ ''F'' @ py_str f
                                   @ '' using '' @ c_name c) st)"
    using assms
    by (cases "isHost st")
       (auto simp: secsDecode_def descriptor_of_def Let_def split: option.splits)
  then show "onHsmsPacketReceived x st p =
              (Inl e, log DEBUG (''decoding function S'' @ py_str s @ ''F'' @ py_str f
                                   @ '' using '' @ c_name c) st)
            \<and> packetQueue (snd (onHsmsPacketReceived x st p)) = packetQueue st
            \<and> invoked (snd (onHsmsPacketReceived x st p)) = invoked st"
    by (simp add: onHsmsPacketReceived_def log_simps)
qed

theorem onHsmsPacketReceived_decode_failure_witness:
  "onHsmsPacketReceived example_ext example_handler (packet_of 1 1 '''')
     = (Inr (), example_handler\<lparr>logger := [(WARNING, ''unknown function S01F01''), (INFO, ''< s1f1'')],
                               packetQueue := [packet_of 1 1 '''']\<rparr>)
   \<and> onHsmsPacketReceived example_ext example_handler (packet_of 6 11 '''')
     = (Inl (Exception ''malformed item''),
        example_handler\<lparr>logger := [(DEBUG, ''decoding function S6F11 using secsS06F11'')]\<rparr>)"
  using onHsmsPacketReceived_decode_failure[of
      "secsStreamsFunctionsEquipment example_handler" example_handler 1 "packet_of 1 1 ''''" 1
      example_ext "rejecting_class ''secsS06F11''" "Exception ''malformed item''"]
    onHsmsPacketReceived_decode_failure[of
      "secsStreamsFunctionsEquipment example_handler" example_handler 6 "packet_of 6 11 ''''" 11
      example_ext "rejecting_class ''secsS06F11''" "Exception ''malformed item''"]
  by (simp add: packet_of_def example_ext_def decoding_class_def rejecting_class_def example_handler_def
      descriptor_of_def render_simps unknown_function_def
        callback_index_of_def log_def queuePacket_def)

theorem onHsmsPacketReceived_codec_error_counterexample:
  "fst (onHsmsPacketReceived example_ext
          (example_handler\<lparr>callbacks := [''s6f11'' \<mapsto> [returning ''a'' (PyBool False)]]\<rparr>)
          (packet_of 6 11 '''')) = Inl (Exception ''malformed item'')
   \<and> packetQueue (snd (onHsmsPacketReceived example_ext
          (example_handler\<lparr>callbacks := [''s6f11'' \<mapsto> [returning ''a'' (PyBool False)]]\<rparr>)
          (packet_of 6 11 ''''))) = []
   \<and> invoked (snd (onHsmsPacketReceived example_ext
          (example_handler\<lparr>callbacks := [''s6f11'' \<mapsto> [returning ''a'' (PyBool False)]]\<rparr>)
          (packet_of 6 11 ''''))) = []"
  by (simp add: packet_of_def example_ext_def decoding_class_def rejecting_class_def example_handler_def returning_def
      onHsmsPacketReceived_def secsDecode_def Let_def log_def)

text \<open>
  Claim C7, as amended. For every received packet whose decoding does not raise, and whose key
  has no registered callback (the key is absent from the registry, or present with an empty
  list), the packet is pushed to the queue exactly once and no callback is invoked.
\<close>

theorem onHsmsPacketReceived_no_callbacks_queued_once:
  assumes "fst (secsDecode x st p) = Inr m"
    and "callbacks st (callback_index_of p) = None \<or> callbacks st (callback_index_of p) = Some []"
  shows "fst (onHsmsPacketReceived x st p) = Inr ()
       \<and> packetQueue (snd (onHsmsPacketReceived x st p)) = packetQueue st @ [p]
       \<and> invoked (snd (onHsmsPacketReceived x st p)) = invoked st"
proof (cases "secsDecode x st p")
  case (Pair r st1)
  with assms(1) have r: "r = Inr m" by simp
  have keep: "callbacks st1 = callbacks st" "packetQueue st1 = packetQueue st"
    "invoked st1 = invoked st"
    using secsDecode_keeps[of x st p] Pair by simp_all
  from assms(2) show ?thesis
  proof
    assume "callbacks st (callback_index_of p) = None"
    then show ?thesis
      using Pair r keep
      by (simp add: onHsmsPacketReceived_def Let_def log_simps queuePacket_simps dom_def
            split: option.split)
  next
    assume "callbacks st (callback_index_of p) = Some []"
    then show ?thesis
      using Pair r keep
      by (simp add: onHsmsPacketReceived_def Let_def log_simps queuePacket_simps dom_def
            runCallbacks_def split: option.split)
  qed
qed

theorem onHsmsPacketReceived_no_callbacks_queued_once_witness:
  "packetQueue (snd (onHsmsPacketReceived example_ext example_handler (packet_of 1 3 ''''))) 
     = [packet_of 1 3 '''']
   \<and> packetQueue (snd (onHsmsPacketReceived example_ext
        (example_handler\<lparr>callbacks := [''s1f2'' \<mapsto> []]\<rparr>) (packet_of 1 2 ''''))) 
     = [packet_of 1 2 '''']"
  using onHsmsPacketReceived_no_callbacks_queued_once[of example_ext example_handler
      "packet_of 1 3 ''''" None]
    onHsmsPacketReceived_no_callbacks_queued_once[of example_ext
      "example_handler\<lparr>callbacks := [''s1f2'' \<mapsto> []]\<rparr>"
      "packet_of 1 2 ''''" "Some \<lparr>f_name = ''secsS01F02'', f_value = PyStr ''''\<rparr>"]
  by (simp add: packet_of_def example_ext_def decoding_class_def rejecting_class_def example_handler_def
      secsDecode_def Let_def log_def callback_index_of_def render_simps)

theorem onHsmsPacketReceived_unqueued_counterexample:
  "callbacks example_handler (callback_index_of (packet_of 6 11 ''x'')) = None
   \<and> fst (onHsmsPacketReceived example_ext example_handler (packet_of 6 11 ''x''))
       = Inl (Exception ''malformed item'')
   \<and> packetQueue (snd (onHsmsPacketReceived example_ext example_handler (packet_of 6 11 ''x''))) = []"
  by (simp add: packet_of_def example_ext_def decoding_class_def rejecting_class_def example_handler_def
      onHsmsPacketReceived_def secsDecode_def Let_def log_def)

lemma no_connection_soft_null:
  assumes "connection st = None"
  shows "disableCEIDs x st = (Inr None, st)"
    and "disableCEIDReports x st = (Inr None, st)"
    and "listSVs x st = (Inr None, st)"
    and "requestSVs x st svs = (Inr None, st)"
    and "listECs x st = (Inr None, st)"
    and "requestECs x st ecs = (Inr None, st)"
    and "requestEC x st ec = (Inr None, st)"
    and "setECs x st ecs = (Inr PyNone, st)"
    and "setEC x st ec v = (Inr PyNone, st)"
    and "sendEquipmentTerminal x st tid txt = (Inr None, st)"
    and "areYouThere x st = (Inr PyNone, st)"
  using assms
  by (simp_all add: disableCEIDs_def disableCEIDReports_def listSVs_def requestSVs_def
        listECs_def requestECs_def requestEC_def setECs_def setEC_def
        sendEquipmentTerminal_def areYouThere_def)

lemma requestSV_no_connection:
  assumes "connection st = None"
  shows "requestSV x st sv =
           (Inl (TypeError (NoneType_no_attribute ''__getitem__'')), st)"
  by (simp add: requestSV_def no_connection_soft_null(4)[OF assms] then_do_def)

text \<open>
  Claim C5, at the input where the code departs from it. With no connection,
  \<^verbatim>\<open>requestSV\<close> does not return a null result: \<^verbatim>\<open>requestSVs\<close> returns \<^verbatim>\<open>None\<close> and
  the subscript \<^verbatim>\<open>[0]\<close> applied to it raises \<^verbatim>\<open>TypeError\<close>. Its sibling
  \<^verbatim>\<open>requestEC\<close> returns \<^verbatim>\<open>None\<close> on the same input; nothing is sent in either case.
\<close>

theorem requestSV_no_connection_raises:
  "connection example_handler = None
   \<and> requestSV example_ext example_handler (PyInt 1)
       = (Inl (TypeError (NoneType_no_attribute ''__getitem__'')), example_handler)
   \<and> requestEC example_ext example_handler (PyInt 1) = (Inr None, example_handler)"
  by (simp add: requestSV_no_connection no_connection_soft_null example_handler_def)

lemma class_body_result:
  assumes "\<forall>a \<in> dom (objects s0). a < fresh s0"
    and "mod_secsStreamsFunctionsHost m \<in> dom (objects s0)"
    and "mod_secsStreamsFunctionsEquipment m \<in> dom (objects s0)"
  shows "class_body m s0 =
           Some (\<lparr>cls_secsStreamsFunctionsHost = fresh s0,
                  cls_secsStreamsFunctionsEquipment = Suc (fresh s0)\<rparr>,
                 s0\<lparr>objects := (objects s0)
                        (fresh s0 := objects s0 (mod_secsStreamsFunctionsHost m),
                         Suc (fresh s0) := objects s0 (mod_secsStreamsFunctionsEquipment m)),
                    fresh := Suc (Suc (fresh s0))\<rparr>)"
proof -
  from assms(2) obtain th where th: "objects s0 (mod_secsStreamsFunctionsHost m) = Some th"
    by auto
  from assms(3) obtain te where te: "objects s0 (mod_secsStreamsFunctionsEquipment m) = Some te"
    by auto
  from assms(1,3) have "mod_secsStreamsFunctionsEquipment m \<noteq> fresh s0" by auto
  with th te show ?thesis
    by (simp add: class_body_def deepcopy_def)
qed

lemma lookup_class_name_setitem:
  "lookup_class_name (Some (table_setitem t stream function' cl)) stream function' = Some (c_name cl)"
  by (simp add: lookup_class_name_def table_setitem_def split: option.split)

text \<open>
  Claim C8, as amended. The two tables are deep-copied from the prototype tables once, when
  the class body runs, and not at handler construction: \<^verbatim>\<open>__init__\<close> copies nothing, and
  every handler object resolves either attribute to the one object held by the class. So
  an assignment into a table made through one handler is observable through every other
  handler, and never in the prototype tables of the module.
\<close>

theorem class_level_tables_shared:
  assumes "\<forall>a \<in> dom (objects s0). a < fresh s0"
    and "mod_secsStreamsFunctionsHost m \<in> dom (objects s0)"
    and "mod_secsStreamsFunctionsEquipment m \<in> dom (objects s0)"
    and "class_body m s0 = Some (cls, s1)"
    and "init s1 = (h1, s2)"
    and "init s2 = (h2, s3)"
    and "name = ''secsStreamsFunctionsHost'' \<or> name = ''secsStreamsFunctionsEquipment''"
  shows "s3 = s1
       \<and> getattr cls h1 name = class_attr cls name
       \<and> getattr cls h2 name = getattr cls h1 name
       \<and> read_table s3 cls h2 ''secsStreamsFunctionsHost''
           = objects s0 (mod_secsStreamsFunctionsHost m)
       \<and> read_table s3 cls h2 ''secsStreamsFunctionsEquipment''
           = objects s0 (mod_secsStreamsFunctionsEquipment m)
       \<and> (\<exists>t s4. read_table s3 cls h2 name = Some t
             \<and> setitem s3 cls h1 name stream function' cl = Some s4
             \<and> read_table s4 cls h2 name = Some (table_setitem t stream function' cl)
             \<and> objects s4 (mod_secsStreamsFunctionsHost m)
                 = objects s0 (mod_secsStreamsFunctionsHost m)
             \<and> objects s4 (mod_secsStreamsFunctionsEquipment m)
                 = objects s0 (mod_secsStreamsFunctionsEquipment m))"
proof -
  note cb = class_body_result[OF assms(1-3)]
  from assms(4) cb have cls: "cls = \<lparr>cls_secsStreamsFunctionsHost = fresh s0,
                  cls_secsStreamsFunctionsEquipment = Suc (fresh s0)\<rparr>"
    and s1: "s1 = s0\<lparr>objects := (objects s0)
                        (fresh s0 := objects s0 (mod_secsStreamsFunctionsHost m),
                         Suc (fresh s0) := objects s0 (mod_secsStreamsFunctionsEquipment m)),
                    fresh := Suc (Suc (fresh s0))\<rparr>"
    by simp_all
  from assms(5,6) have h: "h1 = \<lparr>self_isHost = True, self_dict = Map.empty\<rparr>"
    "h2 = \<lparr>self_isHost = True, self_dict = Map.empty\<rparr>" "s2 = s1" "s3 = s1"
    by (auto simp: init_def)
  from assms(1,2) have mh: "mod_secsStreamsFunctionsHost m < fresh s0" by auto
  from assms(1,3) have me: "mod_secsStreamsFunctionsEquipment m < fresh s0" by auto
  from assms(2) obtain th where th: "objects s0 (mod_secsStreamsFunctionsHost m) = Some th"
    by auto
  from assms(3) obtain te where te: "objects s0 (mod_secsStreamsFunctionsEquipment m) = Some te"
    by auto
  have rh: "read_table s3 cls h2 ''secsStreamsFunctionsHost''
           = objects s0 (mod_secsStreamsFunctionsHost m)"
    by (simp add: read_table_def getattr_def class_attr_def h cls s1)
  have re: "read_table s3 cls h2 ''secsStreamsFunctionsEquipment''
           = objects s0 (mod_secsStreamsFunctionsEquipment m)"
    by (simp add: read_table_def getattr_def class_attr_def h cls s1)
  have ga: "getattr cls h1 name = class_attr cls name" "getattr cls h2 name = getattr cls h1 name"
    by (simp_all add: getattr_def h)
  have mut: "\<exists>t s4. read_table s3 cls h2 name = Some t
             \<and> setitem s3 cls h1 name stream function' cl = Some s4
             \<and> read_table s4 cls h2 name = Some (table_setitem t stream function' cl)
             \<and> objects s4 (mod_secsStreamsFunctionsHost m)
                 = objects s0 (mod_secsStreamsFunctionsHost m)
             \<and> objects s4 (mod_secsStreamsFunctionsEquipment m)
                 = objects s0 (mod_secsStreamsFunctionsEquipment m)"
    using assms(7)
  proof
    assume n: "name = ''secsStreamsFunctionsHost''"
    show ?thesis
      using mh me th te
      by (simp add: n read_table_def setitem_def getattr_def class_attr_def h cls s1)
  next
    assume n: "name = ''secsStreamsFunctionsEquipment''"
    show ?thesis
      using mh me th te
      by (simp add: n read_table_def setitem_def getattr_def class_attr_def h cls s1)
  qed
  from h(4) ga rh re mut show ?thesis by blast
qed

theorem class_level_tables_shared_witness:
  "dom (objects example_store) = {0, 1}
   \<and> fresh example_store = 2
   \<and> seen_by_second_handler example_module example_store ''secsStreamsFunctionsEquipment'' 1 5
        (decoding_class ''custom'') = Some (None, Some ''custom'')"
proof -
  have dom: "dom (objects example_store) = {0, 1}" and fr: "fresh example_store = 2"
    by (auto simp: example_store_def)
  have wf: "\<forall>a \<in> dom (objects example_store). a < fresh example_store"
    by (simp add: dom fr)
  have mh: "mod_secsStreamsFunctionsHost example_module \<in> dom (objects example_store)"
    and me: "mod_secsStreamsFunctionsEquipment example_module \<in> dom (objects example_store)"
    by (simp_all add: dom example_module_def)
  obtain cls s1 where cb: "class_body example_module example_store = Some (cls, s1)"
    using class_body_result[OF wf mh me] by simp
  obtain h1 h2 where i1: "init s1 = (h1, s1)" and i2: "init s1 = (h2, s1)"
    by (simp add: init_def)
  have nm: "''secsStreamsFunctionsEquipment'' = ''secsStreamsFunctionsHost''
              \<or> ''secsStreamsFunctionsEquipment'' = ''secsStreamsFunctionsEquipment''"
    by simp
  from class_level_tables_shared[OF wf mh me cb i1 i2 nm, of 1 5 "decoding_class ''custom''"]
  obtain t s4 where
    before: "read_table s1 cls h2 ''secsStreamsFunctionsEquipment''
               = objects example_store (mod_secsStreamsFunctionsEquipment example_module)"
    and rt: "read_table s1 cls h2 ''secsStreamsFunctionsEquipment'' = Some t"
    and si: "setitem s1 cls h1 ''secsStreamsFunctionsEquipment'' 1 5 (decoding_class ''custom'')
               = Some s4"
    and after: "read_table s4 cls h2 ''secsStreamsFunctionsEquipment''
               = Some (table_setitem t 1 5 (decoding_class ''custom''))"
    by blast
  have "lookup_class_name (read_table s1 cls h2 ''secsStreamsFunctionsEquipment'') 1 5 = None"
    by (simp add: before example_store_def example_module_def lookup_class_name_def)
  moreover have "lookup_class_name (read_table s4 cls h2 ''secsStreamsFunctionsEquipment'') 1 5
                   = Some ''custom''"
    by (simp add: after lookup_class_name_setitem decoding_class_def)
  ultimately have "seen_by_second_handler example_module example_store
        ''secsStreamsFunctionsEquipment'' 1 5 (decoding_class ''custom'')
      = Some (None, Some ''custom'')"
    using cb i1 i2 si by (simp add: seen_by_second_handler_def)
  with dom fr show ?thesis by simp
qed

theorem second_handler_sees_mutation_counterexample:
  "seen_by_second_handler example_module example_store ''secsStreamsFunctionsHost'' 1 3
     (decoding_class ''custom'') = Some (None, Some ''custom'')"
  by (simp add: seen_by_second_handler_def class_body_def deepcopy_def init_def setitem_def
        read_table_def getattr_def class_attr_def lookup_class_name_def table_setitem_def
        example_store_def example_module_def decoding_class_def)

end
